theory Spec2Isabelle
  imports Main
begin

section \<open>Errors and error codes (package common)\<close>

text \<open>
  A Go \<open>error\<close> value. The only error the code could tell apart from the others is the
  sentinel \<open>redis.Nil\<close>, the reply of the client to a \<open>GET\<close> of a key that does not
  exist; every other error is carried with its message. A nil error is \<open>None\<close> of
  \<open>go_error option\<close>.
\<close>

datatype go_error = redis_Nil | other_error string

fun Error :: "go_error \<Rightarrow> string" where
  "Error redis_Nil = ''redis: nil''"
| "Error (other_error m) = m"

record Errno =
  Code :: int
  Msg :: string
  ErrMsg :: string

definition WithMsg :: "Errno \<Rightarrow> string \<Rightarrow> Errno" where
  "WithMsg err msg = err\<lparr>Msg := Msg err @ '','' @ msg\<rparr>"

definition WithErr :: "Errno \<Rightarrow> go_error option \<Rightarrow> Errno" where
  "WithErr err rawErr =
     (let msg = (case rawErr of None \<Rightarrow> [] | Some e \<Rightarrow> Error e)
      in err\<lparr>ErrMsg := Msg err @ '','' @ msg\<rparr>)"

definition IsOk :: "Errno \<Rightarrow> bool" where
  "IsOk err = (Code err = 200)"

text \<open>
  The two client-facing messages are Chinese text; a Go string is its UTF-8 bytes.
  \<open>msg_slide_expired\<close> is the message passed to \<open>WithMsg\<close> in \<open>CheckSlideCaptcha\<close>
  (the slider has expired, refresh and retry), \<open>msg_slide_check_failed\<close> is the \<open>Msg\<close> of
  \<open>InvalidCaptchaErr\<close> (the slider check failed, retry).
\<close>

definition msg_slide_expired :: string where
  "msg_slide_expired =
     [CHR 0xE6, CHR 0xBB, CHR 0x91, CHR 0xE5, CHR 0x9D, CHR 0x97, CHR 0xE5, CHR 0xB7,
      CHR 0xB2, CHR 0xE8, CHR 0xBF, CHR 0x87, CHR 0xE6, CHR 0x9C, CHR 0x9F, CHR 0xEF,
      CHR 0xBC, CHR 0x8C, CHR 0xE8, CHR 0xAF, CHR 0xB7, CHR 0xE5, CHR 0x88, CHR 0xB7,
      CHR 0xE6, CHR 0x96, CHR 0xB0, CHR 0xE9, CHR 0x87, CHR 0x8D, CHR 0xE8, CHR 0xAF,
      CHR 0x95]"

definition msg_slide_check_failed :: string where
  "msg_slide_check_failed =
     [CHR 0xE6, CHR 0xBB, CHR 0x91, CHR 0xE5, CHR 0x9D, CHR 0x97, CHR 0xE6, CHR 0xA0,
      CHR 0xA1, CHR 0xE9, CHR 0xAA, CHR 0x8C, CHR 0xE5, CHR 0xA4, CHR 0xB1, CHR 0xE8,
      CHR 0xB4, CHR 0xA5, CHR 0xEF, CHR 0xBC, CHR 0x8C, CHR 0xE8, CHR 0xAF, CHR 0xB7,
      CHR 0xE9, CHR 0x87, CHR 0x8D, CHR 0xE8, CHR 0xAF, CHR 0x95]"

definition OK :: Errno where
  "OK = \<lparr>Code = 200, Msg = ''OK'', ErrMsg = []\<rparr>"

definition ServerErr :: Errno where
  "ServerErr = \<lparr>Code = 500, Msg = ''Internal Server Error'', ErrMsg = []\<rparr>"

definition ParamErr :: Errno where
  "ParamErr = \<lparr>Code = 400, Msg = ''Param Error'', ErrMsg = []\<rparr>"

definition RedisErr :: Errno where
  "RedisErr = \<lparr>Code = 10001, Msg = ''Redis Error'', ErrMsg = []\<rparr>"

definition InvalidCaptchaErr :: Errno where
  "InvalidCaptchaErr = \<lparr>Code = 11002, Msg = msg_slide_check_failed, ErrMsg = []\<rparr>"

section \<open>The key-value store (go-redis client and Redis server)\<close>

text \<open>
  Modelled from the spec: the client library and the server are not part of the
  repository. The spec describes the collaborator as a key-value store with
  \<open>SET key value TTL\<close>, \<open>GET key\<close> (returning not-found when absent or expired) and
  \<open>DEL key\<close>, each of which can fail when the store is unreachable.

  \<^item> \<open>kv\<close> holds, for each key, the value and the instant at which it expires
    (\<open>None\<close>: never); \<open>clock\<close> is the server's time. Durations and instants are
    nanoseconds, as \<open>time.Duration\<close> is.
  \<^item> \<open>faults\<close> is the fate of the commands still to be sent: the head decides the next
    command, \<open>Some m\<close> meaning that it fails with message \<open>m\<close> and has no effect,
    \<open>None\<close> that it is executed; when the list is used up every command is executed.
  \<^item> \<open>sent\<close> lists the commands the client has issued, oldest first. Nothing reads it:
    it is there to state which commands an operation issues.
  \<^item> not-found reaches the Go caller as the error \<open>redis.Nil\<close> with the empty
    string, which is how the client library reports a \<open>GET\<close> of a missing key.
  \<^item> a \<open>SET\<close> whose expiration is not positive stores the value without expiry, as the
    client library does; the engine only passes two and five minutes.
  Two simplifications: the clock does not move while one operation runs, and a command
  that fails has not changed the store.
\<close>

type_synonym Duration = int

definition Second :: Duration where
  "Second = 1000000000"

definition Minute :: Duration where
  "Minute = 60 * Second"

record entry =
  val :: string
  deadline :: "int option"

datatype command = SET string string Duration | GET string | DEL string

record redis_Client =
  kv :: "string \<rightharpoonup> entry"
  clock :: int
  faults :: "string option list"
  sent :: "command list"

definition send :: "redis_Client \<Rightarrow> command \<Rightarrow> string option \<times> redis_Client" where
  "send c cmd =
     (case faults c of
        [] \<Rightarrow> (None, c\<lparr>sent := sent c @ [cmd]\<rparr>)
      | f # fs \<Rightarrow> (f, c\<lparr>faults := fs, sent := sent c @ [cmd]\<rparr>))"

definition live :: "redis_Client \<Rightarrow> string \<Rightarrow> string option" where
  "live c k =
     (case kv c k of
        None \<Rightarrow> None
      | Some e \<Rightarrow>
          (case deadline e of
             None \<Rightarrow> Some (val e)
           | Some d \<Rightarrow> if clock c < d then Some (val e) else None))"

definition redis_Set :: "redis_Client \<Rightarrow> string \<Rightarrow> string \<Rightarrow> Duration \<Rightarrow> redis_Client \<times> go_error option" where
  "redis_Set c k v expiration =
     (case send c (SET k v expiration) of
        (Some m, c') \<Rightarrow> (c', Some (other_error m))
      | (None, c') \<Rightarrow>
          (c'\<lparr>kv := (kv c')(k \<mapsto>
                 \<lparr>val = v,
                  deadline = (if 0 < expiration then Some (clock c' + expiration) else None)\<rparr>)\<rparr>,
           None))"

definition redis_Get :: "redis_Client \<Rightarrow> string \<Rightarrow> redis_Client \<times> string \<times> go_error option" where
  "redis_Get c k =
     (case send c (GET k) of
        (Some m, c') \<Rightarrow> (c', [], Some (other_error m))
      | (None, c') \<Rightarrow>
          (case live c' k of
             None \<Rightarrow> (c', [], Some redis_Nil)
           | Some v \<Rightarrow> (c', v, None)))"

text \<open>Every caller of \<open>Del\<close> discards its reply, so only the client after the command is returned.\<close>

definition redis_Del :: "redis_Client \<Rightarrow> string \<Rightarrow> redis_Client" where
  "redis_Del c k =
     (case send c (DEL k) of
        (Some m, c') \<Rightarrow> c'
      | (None, c') \<Rightarrow> c'\<lparr>kv := (kv c')(k := None)\<rparr>)"

text \<open>Time passing on the server between two requests.\<close>

definition advance :: "Duration \<Rightarrow> redis_Client \<Rightarrow> redis_Client" where
  "advance d c = c\<lparr>clock := clock c + d\<rparr>"

section \<open>The challenge store (package redis, type Verify)\<close>

text \<open>
  \<open>Verify\<close> holds the client only, so an operation takes the client and returns it with
  its result. The context argument is unused by every method and is left out.
\<close>

definition ServerFullName :: string where
  "ServerFullName = ''edu.mall''"

definition fmtVerifyCaptchaKey :: "string \<Rightarrow> string" where
  "fmtVerifyCaptchaKey key = ServerFullName @ '':captcha:'' @ key"

definition fmtVerifyCaptchaTicket :: "string \<Rightarrow> string" where
  "fmtVerifyCaptchaTicket key = ServerFullName @ '':captcha:ticket:'' @ key"

definition SetCaptchaKey :: "redis_Client \<Rightarrow> string \<Rightarrow> string \<Rightarrow> Duration \<Rightarrow> redis_Client \<times> go_error option" where
  "SetCaptchaKey v key value expire =
     (let redisKey = fmtVerifyCaptchaKey key in redis_Set v redisKey value expire)"

definition GetCaptchaKey :: "redis_Client \<Rightarrow> string \<Rightarrow> redis_Client \<times> string \<times> go_error option" where
  "GetCaptchaKey v key =
     (let redisKey = fmtVerifyCaptchaKey key in
      case redis_Get v redisKey of
        (v1, get, Some err) \<Rightarrow> (v1, [], Some err)
      | (v1, get, None) \<Rightarrow> (redis_Del v1 redisKey, get, None))"

definition SetCaptchaTicket :: "redis_Client \<Rightarrow> string \<Rightarrow> string \<Rightarrow> Duration \<Rightarrow> redis_Client \<times> go_error option" where
  "SetCaptchaTicket v key value expire =
     (let redisKey = fmtVerifyCaptchaTicket key in redis_Set v redisKey value expire)"

definition GetCaptchaTicket :: "redis_Client \<Rightarrow> string \<Rightarrow> redis_Client \<times> string \<times> go_error option" where
  "GetCaptchaTicket v key =
     (let redisKey = fmtVerifyCaptchaTicket key in
      case redis_Get v redisKey of
        (v1, get, Some err) \<Rightarrow> (v1, [], Some err)
      | (v1, get, None) \<Rightarrow> (redis_Del v1 redisKey, get, None))"

section \<open>The captcha engine (package admin, type Service)\<close>

text \<open>
  \<open>slide.Block\<close> is the puzzle's solution as the generator returns it; only the fields
  that the repository reads are kept. The request and response structs are those of
  package \<open>dto\<close>, with the fields the engine reads and writes; the two responses both
  have a key or an expiry field, which are told apart here by a prefix. Neither package
  is among the repository's files, so the field types are read off their uses:
  coordinates and sizes are integers, taken unbounded, and the conversions to \<open>int64\<close>
  in \<open>CheckSlideCaptcha\<close> are the identity.
\<close>

record Block =
  X :: int
  Y :: int
  Width :: int
  Height :: int
  TileX :: int
  TileY :: int

record CheckCaptchaReq =
  Key :: string
  SlideX :: int
  SlideY :: int

record CheckCaptchaDtoResp =
  Ticket :: string
  ticket_Expire :: int

record GetVerifyCaptchaResp =
  captcha_Key :: string
  ImageBs64 :: string
  TitleImageBs64 :: string
  TitleHeight :: int
  TitleWidth :: int
  TitleX :: int
  TitleY :: int
  captcha_Expire :: int

text \<open>
  What one call of the generator returns: the solution (\<open>GetData\<close>, possibly nil) and
  the outcome of encoding each of the two images.
\<close>

record CaptData =
  GetData :: "Block option"
  GetMasterImage_ToBase64 :: "go_error + string"
  GetTileImage_ToBase64 :: "go_error + string"

text \<open>
  Modelled from the spec: \<open>slide.CheckPoint\<close> is a function of the go-captcha library,
  which is not part of the repository. The spec gives its meaning: a match requires both
  \<open>|\<Delta>x| \<le> tolerance\<close> and \<open>|\<Delta>y| \<le> tolerance\<close>. The arguments are the submitted
  point, the solution point and the tolerance, in the order of the call in
  \<open>CheckSlideCaptcha\<close>. How the library itself treats a solution closer than the
  tolerance to the picture's edge is not covered by this definition.
\<close>

definition CheckPoint :: "int \<Rightarrow> int \<Rightarrow> int \<Rightarrow> int \<Rightarrow> int \<Rightarrow> bool" where
  "CheckPoint sx sy dx dy padding = (\<bar>sx - dx\<bar> \<le> padding \<and> \<bar>sy - dy\<bar> \<le> padding)"

text \<open>
  The engine's other collaborators are arguments of the operations:
  \<^item> \<open>Generate\<close>: what \<open>s.captcha.Generate()\<close> returns at this call;
  \<^item> \<open>json_Marshal\<close>, \<open>json_Unmarshal\<close>: the JSON codec for \<open>slide.Block\<close>
    (\<open>None\<close>: \<open>json.Unmarshal\<close> returned an error);
  \<^item> \<open>UUIDHex\<close>: the identifier that \<open>tools.UUIDHex()\<close> returns at this call.
  Logging has no effect on the result and is left out. The Go functions return a
  response pointer and an \<open>Errno\<close>; a nil pointer is \<open>None\<close>.
\<close>

definition GetSlideCaptcha ::
  "(go_error + CaptData) \<Rightarrow> (Block \<Rightarrow> go_error + string) \<Rightarrow> string \<Rightarrow> redis_Client
     \<Rightarrow> redis_Client \<times> GetVerifyCaptchaResp option \<times> Errno" where
  "GetSlideCaptcha Generate json_Marshal UUIDHex s =
     (case Generate of
        Inl err \<Rightarrow> (s, None, WithErr ServerErr (Some err))
      | Inr captData \<Rightarrow>
     (case GetData captData of
        None \<Rightarrow> (s, None, WithMsg ServerErr ''GetData is nil'')
      | Some dotData \<Rightarrow>
     (case json_Marshal dotData of
        Inl err \<Rightarrow> (s, None, WithErr ServerErr (Some err))
      | Inr dots \<Rightarrow>
     (case GetMasterImage_ToBase64 captData of
        Inl err \<Rightarrow> (s, None, WithErr ServerErr (Some err))
      | Inr mBs64Data \<Rightarrow>
     (case GetTileImage_ToBase64 captData of
        Inl err \<Rightarrow> (s, None, WithErr ServerErr (Some err))
      | Inr tBs64Data \<Rightarrow>
     (let key = UUIDHex in
      case SetCaptchaKey s key dots (Minute * 2) of
        (s1, Some err) \<Rightarrow> (s1, None, WithErr RedisErr (Some err))
      | (s1, None) \<Rightarrow>
          (s1,
           Some \<lparr>captcha_Key = key, ImageBs64 = mBs64Data, TitleImageBs64 = tBs64Data,
                 TitleHeight = Height dotData, TitleWidth = Width dotData,
                 TitleX = TileX dotData, TitleY = TileY dotData, captcha_Expire = 110\<rparr>,
           OK)))))))"

definition CheckSlideCaptcha ::
  "(string \<Rightarrow> Block option) \<Rightarrow> string \<Rightarrow> redis_Client \<Rightarrow> CheckCaptchaReq
     \<Rightarrow> redis_Client \<times> CheckCaptchaDtoResp option \<times> Errno" where
  "CheckSlideCaptcha json_Unmarshal UUIDHex s req =
     (case GetCaptchaKey s (Key req) of
        (s1, captData, Some err) \<Rightarrow> (s1, None, WithErr RedisErr (Some err))
      | (s1, captData, None) \<Rightarrow>
     (if captData = [] then (s1, None, WithMsg ParamErr msg_slide_expired)
      else
     (case json_Unmarshal captData of
        None \<Rightarrow> (s1, None, InvalidCaptchaErr)
      | Some dot \<Rightarrow>
     (let ok = CheckPoint (SlideX req) (SlideY req) (X dot) (Y dot) 5 in
      if \<not> ok then (s1, None, InvalidCaptchaErr)
      else
     (let ticket = UUIDHex in
      case SetCaptchaTicket s1 ticket (Key req) (Minute * 5) of
        (s2, Some err) \<Rightarrow> (s2, None, WithErr RedisErr (Some err))
      | (s2, None) \<Rightarrow> (s2, Some \<lparr>Ticket = ticket, ticket_Expire = 280\<rparr>, OK))))))"

section \<open>Vocabulary of the statements\<close>

text \<open>
  \<open>fault_at c n\<close> is the fate of the \<open>n\<close>-th command that the client \<open>c\<close> will send,
  counting from 0: \<open>None\<close> when it will be executed.
\<close>

definition fault_at :: "redis_Client \<Rightarrow> nat \<Rightarrow> string option" where
  "fault_at c n = (if n < length (faults c) then faults c ! n else None)"

text \<open>
  \<open>after n cmds c\<close> is the client \<open>c\<close> once it has sent the \<open>n\<close> commands \<open>cmds\<close>,
  leaving aside what they did to the stored records.
\<close>

definition after :: "nat \<Rightarrow> command list \<Rightarrow> redis_Client \<Rightarrow> redis_Client" where
  "after n cmds c = c\<lparr>faults := drop n (faults c), sent := sent c @ cmds\<rparr>"

text \<open>
  A take operation is one of the two destructive reads, named as the spec names them.
  \<open>run_takes\<close> performs a sequence of them on one store, each after the given time has
  passed, and lists what each call returned.
\<close>

datatype take_call = takeChallenge string | takeTicket string

fun redisKey_of :: "take_call \<Rightarrow> string" where
  "redisKey_of (takeChallenge key) = fmtVerifyCaptchaKey key"
| "redisKey_of (takeTicket key) = fmtVerifyCaptchaTicket key"

fun perform :: "redis_Client \<Rightarrow> take_call \<Rightarrow> redis_Client \<times> string \<times> go_error option" where
  "perform v (takeChallenge key) = GetCaptchaKey v key"
| "perform v (takeTicket key) = GetCaptchaTicket v key"

fun run_takes :: "redis_Client \<Rightarrow> (Duration \<times> take_call) list \<Rightarrow> (string \<times> go_error option) list" where
  "run_takes v [] = []"
| "run_takes v ((d, c) # cs) =
     (case perform (advance d v) c of (v', r) \<Rightarrow> r # run_takes v' cs)"

section \<open>Example data\<close>

text \<open>
  The two puzzles of the spec's end-to-end scenarios: \<open>c1\<close> with solution (100, 50) and
  \<open>c2\<close> with solution (10, 10); a codec that knows these two documents; a generator
  result for each; and the stores reached by issuing them on an empty store.
\<close>

definition block_c1 :: Block where
  "block_c1 = \<lparr>X = 100, Y = 50, Width = 60, Height = 60, TileX = 5, TileY = 50\<rparr>"

definition block_c2 :: Block where
  "block_c2 = \<lparr>X = 10, Y = 10, Width = 60, Height = 60, TileX = 5, TileY = 10\<rparr>"

definition json_c1 :: string where
  \<open>json_c1 = ''{"x":100,"y":50,"width":60,"height":60,"tile_x":5,"tile_y":50}''\<close>

definition json_c2 :: string where
  \<open>json_c2 = ''{"x":10,"y":10,"width":60,"height":60,"tile_x":5,"tile_y":10}''\<close>

definition marshal_example :: "Block \<Rightarrow> go_error + string" where
  "marshal_example b =
     (if b = block_c1 then Inr json_c1
      else if b = block_c2 then Inr json_c2
      else Inl (other_error ''json: unsupported value''))"

definition unmarshal_example :: "string \<Rightarrow> Block option" where
  "unmarshal_example s =
     (if s = json_c1 then Some block_c1
      else if s = json_c2 then Some block_c2
      else None)"

definition captData_c1 :: CaptData where
  "captData_c1 =
     \<lparr>GetData = Some block_c1, GetMasterImage_ToBase64 = Inr ''bWFzdGVy'',
      GetTileImage_ToBase64 = Inr ''dGlsZQ==''\<rparr>"

definition captData_c2 :: CaptData where
  "captData_c2 =
     \<lparr>GetData = Some block_c2, GetMasterImage_ToBase64 = Inr ''bWFzdGVy'',
      GetTileImage_ToBase64 = Inr ''dGlsZQ==''\<rparr>"

definition store_empty :: redis_Client where
  "store_empty = \<lparr>kv = Map.empty, clock = 0, faults = [], sent = []\<rparr>"

definition store_c1 :: redis_Client where
  "store_c1 = fst (GetSlideCaptcha (Inr captData_c1) marshal_example ''c1'' store_empty)"

definition store_c2 :: redis_Client where
  "store_c2 = fst (GetSlideCaptcha (Inr captData_c2) marshal_example ''c2'' store_empty)"

text \<open>
  \<open>store_t1\<close> is reached from \<open>store_c1\<close> by a successful verification that mints the
  ticket \<open>t1\<close>; \<open>store_down\<close> is \<open>store_c1\<close> behind a connection that drops the next
  command.
\<close>

definition store_t1 :: redis_Client where
  "store_t1 =
     fst (CheckSlideCaptcha unmarshal_example ''t1'' store_c1
            \<lparr>Key = ''c1'', SlideX = 103, SlideY = 52\<rparr>)"

definition store_down :: redis_Client where
  "store_down = store_c1\<lparr>faults := [Some ''dial tcp: connection refused'']\<rparr>"

text \<open>
  \<open>store_flaky\<close> is \<open>store_c1\<close> behind a connection that drops the third command;
  \<open>store_unreachable\<close> is an empty store whose next command is dropped;
  \<open>store_degenerate\<close> holds an empty value under \<open>e0\<close> and a value that is not a
  solution document under \<open>n0\<close>.
\<close>

definition store_flaky :: redis_Client where
  "store_flaky = store_c1\<lparr>faults := [None, None, Some ''i/o timeout'']\<rparr>"

definition store_unreachable :: redis_Client where
  "store_unreachable = store_empty\<lparr>faults := [Some ''dial tcp: connection refused'']\<rparr>"

definition store_degenerate :: redis_Client where
  "store_degenerate =
     fst (SetCaptchaKey (fst (SetCaptchaKey store_empty ''e0'' [] (Minute * 2)))
            ''n0'' ''oops'' (Minute * 2))"

text \<open>
  The same three stores behind a connection that delivers the next command and drops the
  one after it: a take's \<open>GET\<close> is executed and its \<open>DEL\<close> is not.
\<close>

definition store_c1_del_lost :: redis_Client where
  "store_c1_del_lost = store_c1\<lparr>faults := [None, Some ''i/o timeout'']\<rparr>"

definition store_t1_del_lost :: redis_Client where
  "store_t1_del_lost = store_t1\<lparr>faults := [None, Some ''i/o timeout'']\<rparr>"

definition store_degenerate_del_lost :: redis_Client where
  "store_degenerate_del_lost = store_degenerate\<lparr>faults := [None, Some ''i/o timeout'']\<rparr>"

section \<open>Facts about the store\<close>

lemma IsOk_simps [simp]:
  "IsOk OK" "\<not> IsOk (WithErr RedisErr x)" "\<not> IsOk (WithErr ServerErr x)"
  "\<not> IsOk (WithMsg ParamErr m)" "\<not> IsOk (WithMsg ServerErr m)" "\<not> IsOk InvalidCaptchaErr"
  by (simp_all add: IsOk_def OK_def WithErr_def WithMsg_def RedisErr_def ServerErr_def
      ParamErr_def InvalidCaptchaErr_def Let_def)

lemma WithMsg_ParamErr_distinct:
  "WithMsg ParamErr m \<noteq> WithErr RedisErr x" "WithMsg ParamErr m \<noteq> InvalidCaptchaErr"
  "WithMsg ParamErr m \<noteq> OK"
  by (simp_all add: WithMsg_def WithErr_def ParamErr_def RedisErr_def InvalidCaptchaErr_def
      OK_def Let_def)

lemma send_eq: "send c cmd = (fault_at c 0, after 1 [cmd] c)"
  by (cases "faults c") (simp_all add: send_def fault_at_def after_def)

lemma fault_at_after [simp]: "fault_at (after m cmds c) n = fault_at c (m + n)"
  by (auto simp: fault_at_def after_def)

lemma fault_at_kv [simp]: "fault_at (c\<lparr>kv := y\<rparr>) n = fault_at c n"
  by (simp add: fault_at_def)

lemma after_after [simp]: "after n ys (after m xs c) = after (m + n) (xs @ ys) c"
  by (simp add: after_def add.commute)

lemma after_kv [simp]: "after n ys (c\<lparr>kv := y\<rparr>) = (after n ys c)\<lparr>kv := y\<rparr>"
  by (simp add: after_def)

lemma after_sel [simp]:
  "kv (after n xs c) = kv c" "clock (after n xs c) = clock c"
  "sent (after n xs c) = sent c @ xs" "faults (after n xs c) = drop n (faults c)"
  by (simp_all add: after_def)

lemma after_kv_same [simp]: "(after n xs c)\<lparr>kv := kv c\<rparr> = after n xs c"
  by (simp add: after_def)

lemma live_after [simp]: "live (after n xs c) k = live c k"
  by (simp add: live_def split: option.splits)

lemma fault_at_reachable: "faults c = [] \<Longrightarrow> fault_at c n = None"
  by (simp add: fault_at_def)

lemma after_reachable: "faults c = [] \<Longrightarrow> after n xs c = c\<lparr>sent := sent c @ xs\<rparr>"
  by (simp add: after_def)

lemma fault_at_advance [simp]: "fault_at (advance d c) n = fault_at c n"
  by (simp add: fault_at_def advance_def)

lemma live_advance_entry:
  "kv c k = Some \<lparr>val = v, deadline = Some (clock c + ttl)\<rparr> \<Longrightarrow>
     live (advance d c) k = (if d < ttl then Some v else None)"
  by (simp add: live_def advance_def)

lemma live_stays_absent:
  "live c k = None \<Longrightarrow> 0 \<le> d \<Longrightarrow> live (advance d c) k = None"
  by (auto simp: live_def advance_def split: option.splits if_splits)

lemma fmt_distinct:
  "key \<noteq> ''ticket:'' @ t \<Longrightarrow> fmtVerifyCaptchaTicket t \<noteq> fmtVerifyCaptchaKey key"
  by (auto simp: fmtVerifyCaptchaTicket_def fmtVerifyCaptchaKey_def)

lemma two_minutes: "Minute * 2 = 120 * Second" and five_minutes: "Minute * 5 = 300 * Second"
  by (simp_all add: Minute_def)

lemma redis_Get_eq:
  "redis_Get c k =
     (case fault_at c 0 of
        Some m \<Rightarrow> (after 1 [GET k] c, [], Some (other_error m))
      | None \<Rightarrow>
          (case live c k of
             None \<Rightarrow> (after 1 [GET k] c, [], Some redis_Nil)
           | Some v \<Rightarrow> (after 1 [GET k] c, v, None)))"
  by (simp add: redis_Get_def send_eq split: option.splits)

lemma redis_Del_eq:
  "redis_Del c k =
     (case fault_at c 0 of
        Some m \<Rightarrow> after 1 [DEL k] c
      | None \<Rightarrow> (after 1 [DEL k] c)\<lparr>kv := (kv c)(k := None)\<rparr>)"
  by (simp add: redis_Del_def send_eq split: option.splits)

lemma redis_Set_eq:
  "redis_Set c k v expiration =
     (case fault_at c 0 of
        Some m \<Rightarrow> (after 1 [SET k v expiration] c, Some (other_error m))
      | None \<Rightarrow>
          ((after 1 [SET k v expiration] c)\<lparr>kv := (kv c)(k \<mapsto>
              \<lparr>val = v,
               deadline = (if 0 < expiration then Some (clock c + expiration) else None)\<rparr>)\<rparr>,
           None))"
  by (simp add: redis_Set_def send_eq split: option.splits)

section \<open>Facts about the two destructive reads\<close>

lemma perform_eq:
  "perform c call =
     (case fault_at c 0 of
        Some m \<Rightarrow> (after 1 [GET (redisKey_of call)] c, [], Some (other_error m))
      | None \<Rightarrow>
          (case live c (redisKey_of call) of
             None \<Rightarrow> (after 1 [GET (redisKey_of call)] c, [], Some redis_Nil)
           | Some v \<Rightarrow>
               ((after 2 [GET (redisKey_of call), DEL (redisKey_of call)] c)
                  \<lparr>kv := (if fault_at c 1 = None then (kv c)(redisKey_of call := None)
                           else kv c)\<rparr>, v, None)))"
  by (cases call)
     (auto simp: GetCaptchaKey_def GetCaptchaTicket_def redis_Get_eq redis_Del_eq Let_def
        numeral_2_eq_2 split: option.splits)

lemma perform_unfold:
  "perform v c =
     (case redis_Get v (redisKey_of c) of
        (v1, get, Some err) \<Rightarrow> (v1, [], Some err)
      | (v1, get, None) \<Rightarrow> (redis_Del v1 (redisKey_of c), get, None))"
  by (cases c) (auto simp: GetCaptchaKey_def GetCaptchaTicket_def Let_def split: prod.splits option.splits)

lemma perform_error:
  "perform v c = (v', s, Some err) \<Longrightarrow>
     kv v' = kv v \<and> clock v' = clock v \<and> sent v' = sent v @ [GET (redisKey_of c)]"
  by (auto simp: perform_unfold redis_Get_def send_def split: prod.splits option.splits list.splits)

lemma perform_ok:
  "perform v c = (v', s, None) \<Longrightarrow>
     live v (redisKey_of c) = Some s \<and> clock v' = clock v \<and>
     sent v' = sent v @ [GET (redisKey_of c), DEL (redisKey_of c)]"
  by (auto simp: perform_unfold redis_Get_def redis_Del_def live_def send_def
      split: prod.splits option.splits list.splits if_splits)

lemma perform_reachable:
  assumes "faults v = []"
  shows "perform v c =
     (case live v (redisKey_of c) of
        None \<Rightarrow> (v\<lparr>sent := sent v @ [GET (redisKey_of c)]\<rparr>, [], Some redis_Nil)
      | Some x \<Rightarrow>
          (v\<lparr>sent := sent v @ [GET (redisKey_of c), DEL (redisKey_of c)],
             kv := (kv v)(redisKey_of c := None)\<rparr>, x, None))"
  using assms
  by (simp add: perform_unfold redis_Get_def redis_Del_def send_def live_def split: option.splits)

lemma live_absent: "kv v k = None \<Longrightarrow> live (advance d v) k = None"
  by (simp add: live_def advance_def)

lemma faults_advance: "faults (advance d v) = faults v"
  by (simp add: advance_def)

lemma perform_keeps_reachable:
  "faults v = [] \<Longrightarrow> perform v c = (v', r) \<Longrightarrow> faults v' = []"
  by (auto simp: perform_reachable split: option.splits)

lemma perform_keeps_absent:
  "faults v = [] \<Longrightarrow> perform v c = (v', r) \<Longrightarrow> kv v k = None \<Longrightarrow> kv v' k = None"
  by (auto simp: perform_reachable split: option.splits)

lemma perform_success_consumes:
  "faults v = [] \<Longrightarrow> perform v c = (v', x, None) \<Longrightarrow> kv v' (redisKey_of c) = None"
  by (auto simp: perform_reachable split: option.splits)

lemma perform_absent:
  assumes f: "faults v = []" and k: "kv v (redisKey_of c) = None"
  shows "snd (perform (advance d v) c) = ([], Some redis_Nil)"
proof -
  have "faults (advance d v) = []" using f by (simp add: faults_advance)
  then show ?thesis
    by (simp add: perform_reachable live_absent [OF k])
qed

lemma run_takes_length: "length (run_takes v cs) = length cs"
  by (induction cs arbitrary: v) (auto split: prod.splits)

lemma run_takes_absent:
  "faults v = [] \<Longrightarrow> kv v (redisKey_of c) = None \<Longrightarrow> j < length cs \<Longrightarrow> snd (cs ! j) = c
     \<Longrightarrow> run_takes v cs ! j = ([], Some redis_Nil)"
proof (induction cs arbitrary: v j)
  case Nil
  then show ?case by simp
next
  case (Cons a cs)
  obtain d c0 where a: "a = (d, c0)" by (cases a)
  obtain v' r where t: "perform (advance d v) c0 = (v', r)" by (cases "perform (advance d v) c0")
  have fa: "faults (advance d v) = []" "kv (advance d v) (redisKey_of c) = None"
    using Cons.prems by (simp_all add: advance_def)
  have f': "faults v' = []" using perform_keeps_reachable [OF fa(1) t] .
  have k': "kv v' (redisKey_of c) = None" using perform_keeps_absent [OF fa(1) t fa(2)] .
  show ?case
  proof (cases j)
    case 0
    then have "c0 = c" using Cons.prems a by simp
    then show ?thesis
      using 0 a t perform_absent [OF Cons.prems(1) Cons.prems(2), of d] by simp
  next
    case (Suc j')
    then show ?thesis
      using Cons.IH [OF f' k', of j'] Cons.prems a t by simp
  qed
qed

lemma run_takes_later_absent:
  "faults v = [] \<Longrightarrow> i < j \<Longrightarrow> j < length cs \<Longrightarrow> snd (cs ! i) = snd (cs ! j)
     \<Longrightarrow> snd (run_takes v cs ! i) = None
     \<Longrightarrow> run_takes v cs ! j = ([], Some redis_Nil)"
proof (induction cs arbitrary: v i j)
  case Nil
  then show ?case by simp
next
  case (Cons a cs)
  obtain d c0 where a: "a = (d, c0)" by (cases a)
  obtain v' x e where t: "perform (advance d v) c0 = (v', x, e)"
    by (cases "perform (advance d v) c0")
  have fa: "faults (advance d v) = []"
    using Cons.prems by (simp add: advance_def)
  have f': "faults v' = []" using perform_keeps_reachable [OF fa t] .
  obtain j' where j: "j = Suc j'" using Cons.prems(2) by (cases j) auto
  show ?case
  proof (cases i)
    case 0
    then have e: "e = None" using Cons.prems(5) a t by simp
    have same: "snd (cs ! j') = c0" using Cons.prems(4) 0 j a by simp
    have k': "kv v' (redisKey_of c0) = None"
      using perform_success_consumes [OF fa] t e by simp
    show ?thesis
      using run_takes_absent [OF f' k' _ same] Cons.prems(3) j a t by simp
  next
    case (Suc i')
    then show ?thesis
      using Cons.IH [OF f', of i' j'] Cons.prems j a t by simp
  qed
qed

lemma take_single_use_when_executed:
  assumes "faults v = []"
  shows "(\<forall>i j. i < j \<and> j < length cs \<and> snd (cs ! i) = snd (cs ! j)
              \<and> snd (run_takes v cs ! i) = None
            \<longrightarrow> run_takes v cs ! j = ([], Some redis_Nil))
       \<and> card {j. j < length cs \<and> snd (cs ! j) = c \<and> snd (run_takes v cs ! j) = None} \<le> 1"
proof
  show later: "\<forall>i j. i < j \<and> j < length cs \<and> snd (cs ! i) = snd (cs ! j)
              \<and> snd (run_takes v cs ! i) = None
            \<longrightarrow> run_takes v cs ! j = ([], Some redis_Nil)"
    using run_takes_later_absent [OF assms] by blast
  let ?S = "{j. j < length cs \<and> snd (cs ! j) = c \<and> snd (run_takes v cs ! j) = None}"
  have fin: "finite ?S" by simp
  have "a = b" if "a \<in> ?S" "b \<in> ?S" for a b
  proof (rule ccontr)
    assume "a \<noteq> b"
    then consider "a < b" | "b < a" by linarith
    then show False
    proof cases
      case 1
      then have "run_takes v cs ! b = ([], Some redis_Nil)"
        using later that by simp
      then show False using that by simp
    next
      case 2
      then have "run_takes v cs ! a = ([], Some redis_Nil)"
        using later that by simp
      then show False using that by simp
    qed
  qed
  then have "card ?S \<le> Suc 0"
    using card_le_Suc0_iff_eq [OF fin] by blast
  then show "card ?S \<le> 1" by simp
qed

section \<open>Facts about the engine\<close>

lemma GetSlideCaptcha_eq:
  "GetSlideCaptcha G M key s =
     (case G of
        Inl err \<Rightarrow> (s, None, WithErr ServerErr (Some err))
      | Inr captData \<Rightarrow>
     (case GetData captData of
        None \<Rightarrow> (s, None, WithMsg ServerErr ''GetData is nil'')
      | Some dotData \<Rightarrow>
     (case M dotData of
        Inl err \<Rightarrow> (s, None, WithErr ServerErr (Some err))
      | Inr dots \<Rightarrow>
     (case GetMasterImage_ToBase64 captData of
        Inl err \<Rightarrow> (s, None, WithErr ServerErr (Some err))
      | Inr mBs64Data \<Rightarrow>
     (case GetTileImage_ToBase64 captData of
        Inl err \<Rightarrow> (s, None, WithErr ServerErr (Some err))
      | Inr tBs64Data \<Rightarrow>
     (case fault_at s 0 of
        Some m \<Rightarrow>
          (after 1 [SET (fmtVerifyCaptchaKey key) dots (Minute * 2)] s, None,
           WithErr RedisErr (Some (other_error m)))
      | None \<Rightarrow>
          ((after 1 [SET (fmtVerifyCaptchaKey key) dots (Minute * 2)] s)
             \<lparr>kv := (kv s)(fmtVerifyCaptchaKey key \<mapsto>
                  \<lparr>val = dots, deadline = Some (clock s + Minute * 2)\<rparr>)\<rparr>,
           Some \<lparr>captcha_Key = key, ImageBs64 = mBs64Data, TitleImageBs64 = tBs64Data,
                 TitleHeight = Height dotData, TitleWidth = Width dotData,
                 TitleX = TileX dotData, TitleY = TileY dotData, captcha_Expire = 110\<rparr>,
           OK)))))))"
  by (simp add: GetSlideCaptcha_def SetCaptchaKey_def redis_Set_eq Let_def Minute_def
      Second_def split: sum.splits option.splits)

lemma GetSlideCaptcha_success_iff:
  "IsOk (snd (snd (GetSlideCaptcha G M key s))) \<longleftrightarrow>
     (\<exists>captData dotData dots mBs64Data tBs64Data.
        G = Inr captData \<and> GetData captData = Some dotData \<and> M dotData = Inr dots
        \<and> GetMasterImage_ToBase64 captData = Inr mBs64Data
        \<and> GetTileImage_ToBase64 captData = Inr tBs64Data
        \<and> fault_at s 0 = None)"
  by (auto simp: GetSlideCaptcha_eq split: sum.splits option.splits)

lemma GetSlideCaptcha_ok:
  assumes "GetSlideCaptcha G M key s = (s', resp, e)" and "IsOk e"
  shows "\<exists>r dots. e = OK \<and> resp = Some r \<and> captcha_Key r = key \<and> captcha_Expire r = 110
           \<and> clock s' = clock s
           \<and> sent s' = sent s @ [SET (fmtVerifyCaptchaKey key) dots (Minute * 2)]
           \<and> kv s' = (kv s)(fmtVerifyCaptchaKey key \<mapsto>
                  \<lparr>val = dots, deadline = Some (clock s + Minute * 2)\<rparr>)"
  using assms by (auto simp: GetSlideCaptcha_eq split: sum.splits option.splits)

lemma GetSlideCaptcha_failed:
  assumes "GetSlideCaptcha G M key s = (s', resp, e)" and "\<not> IsOk e"
  shows "resp = None \<and> kv s' = kv s \<and> clock s' = clock s"
  using assms by (auto simp: GetSlideCaptcha_eq split: sum.splits option.splits)

lemma GetSlideCaptcha_resp:
  assumes "GetSlideCaptcha G M key s = (s', Some r, e)"
  shows "IsOk e"
  using assms by (auto simp: GetSlideCaptcha_eq split: sum.splits option.splits)

lemma CheckSlideCaptcha_eq:
  "CheckSlideCaptcha U t s req =
     (case perform s (takeChallenge (Key req)) of
        (s1, captData, Some err) \<Rightarrow> (s1, None, WithErr RedisErr (Some err))
      | (s1, captData, None) \<Rightarrow>
          (case (if captData = [] then None else U captData) of
             None \<Rightarrow>
               (s1, None,
                if captData = [] then WithMsg ParamErr msg_slide_expired else InvalidCaptchaErr)
           | Some dot \<Rightarrow>
               if \<not> CheckPoint (SlideX req) (SlideY req) (X dot) (Y dot) 5
               then (s1, None, InvalidCaptchaErr)
               else
                 (case fault_at s1 0 of
                    Some m \<Rightarrow>
                      (after 1 [SET (fmtVerifyCaptchaTicket t) (Key req) (Minute * 5)] s1, None,
                       WithErr RedisErr (Some (other_error m)))
                  | None \<Rightarrow>
                      ((after 1 [SET (fmtVerifyCaptchaTicket t) (Key req) (Minute * 5)] s1)
                         \<lparr>kv := (kv s1)(fmtVerifyCaptchaTicket t \<mapsto>
                              \<lparr>val = Key req, deadline = Some (clock s1 + Minute * 5)\<rparr>)\<rparr>,
                       Some \<lparr>Ticket = t, ticket_Expire = 280\<rparr>, OK))))"
  by (simp add: CheckSlideCaptcha_def SetCaptchaTicket_def redis_Set_eq Let_def Minute_def
      Second_def split: prod.splits option.splits)

lemma CheckSlideCaptcha_success_iff:
  "IsOk (snd (snd (CheckSlideCaptcha U t s req))) \<longleftrightarrow>
     (\<exists>captData dot.
        fault_at s 0 = None \<and> live s (fmtVerifyCaptchaKey (Key req)) = Some captData
        \<and> captData \<noteq> [] \<and> U captData = Some dot
        \<and> CheckPoint (SlideX req) (SlideY req) (X dot) (Y dot) 5
        \<and> fault_at s 2 = None)"
  by (auto simp: CheckSlideCaptcha_eq perform_eq split: option.splits if_splits)

lemma CheckSlideCaptcha_ok:
  assumes "CheckSlideCaptcha U t s req = (s', resp, e)" and "IsOk e"
  shows "e = OK \<and> resp = Some \<lparr>Ticket = t, ticket_Expire = 280\<rparr> \<and> clock s' = clock s
       \<and> last (sent s') = SET (fmtVerifyCaptchaTicket t) (Key req) (Minute * 5)
       \<and> kv s' (fmtVerifyCaptchaTicket t)
           = Some \<lparr>val = Key req, deadline = Some (clock s + Minute * 5)\<rparr>"
  using assms
  by (auto simp: CheckSlideCaptcha_eq perform_eq split: option.splits if_splits)

lemma CheckSlideCaptcha_resp:
  assumes "CheckSlideCaptcha U t s req = (s', Some r, e)"
  shows "IsOk e"
  using assms
  by (auto simp: CheckSlideCaptcha_eq perform_eq split: option.splits if_splits)

lemma CheckSlideCaptcha_absent:
  assumes "fault_at s 0 = None" and "live s (fmtVerifyCaptchaKey (Key req)) = None"
  shows "CheckSlideCaptcha U t s req =
           (after 1 [GET (fmtVerifyCaptchaKey (Key req))] s, None,
            WithErr RedisErr (Some redis_Nil))"
  using assms by (simp add: CheckSlideCaptcha_eq perform_eq)

lemma expired_message_only_for_empty_value:
  assumes "snd (snd (CheckSlideCaptcha U t s req)) = WithMsg ParamErr msg_slide_expired"
  shows "fault_at s 0 = None \<and> live s (fmtVerifyCaptchaKey (Key req)) = Some []"
  using assms WithMsg_ParamErr_distinct [of msg_slide_expired, symmetric]
  by (auto simp: CheckSlideCaptcha_eq perform_eq split: option.splits if_splits)

lemma CheckSlideCaptcha_consumes:
  assumes "faults s = []" and "CheckSlideCaptcha U t s req = (s', r, e)"
    and "Key req \<noteq> ''ticket:'' @ t"
  shows "live s' (fmtVerifyCaptchaKey (Key req)) = None \<and> faults s' = []"
  using assms fmt_distinct [of "Key req" t]
  by (auto simp: CheckSlideCaptcha_eq perform_eq fault_at_reachable live_def
      split: option.splits if_splits)

lemma CheckSlideCaptcha_replay:
  assumes "faults s = []" and "CheckSlideCaptcha U t s req = (s', r, e)"
    and "Key req \<noteq> ''ticket:'' @ t" and "0 \<le> d" and "Key req' = Key req"
  shows "snd (CheckSlideCaptcha U' t' (advance d s') req') = (None, WithErr RedisErr (Some redis_Nil))"
proof -
  have c: "live s' (fmtVerifyCaptchaKey (Key req)) = None" "faults s' = []"
    using CheckSlideCaptcha_consumes [OF assms(1,2,3)] by simp_all
  have "live (advance d s') (fmtVerifyCaptchaKey (Key req')) = None"
    using live_stays_absent [OF c(1) assms(4)] assms(5) by simp
  moreover have "fault_at (advance d s') 0 = None"
    using c(2) by (simp add: fault_at_reachable)
  ultimately show ?thesis
    by (simp add: CheckSlideCaptcha_absent)
qed

lemma degenerate_value_verdict:
  assumes "fault_at s 0 = None"
    and "live s (fmtVerifyCaptchaKey (Key req)) = Some captData"
    and "captData = [] \<or> json_Unmarshal captData = None"
  shows "CheckSlideCaptcha json_Unmarshal t s req =
           ((after 2 [GET (fmtVerifyCaptchaKey (Key req)), DEL (fmtVerifyCaptchaKey (Key req))] s)
              \<lparr>kv := (if fault_at s 1 = None
                       then (kv s)(fmtVerifyCaptchaKey (Key req) := None) else kv s)\<rparr>,
            None,
            if captData = [] then WithMsg ParamErr msg_slide_expired else InvalidCaptchaErr)"
  using assms by (auto simp: CheckSlideCaptcha_eq perform_eq)

section \<open>The examples, evaluated\<close>

lemmas store_simps =
  SetCaptchaKey_def SetCaptchaTicket_def GetCaptchaKey_def GetCaptchaTicket_def
  redis_Set_def redis_Get_def redis_Del_def live_def send_def advance_def
  fmtVerifyCaptchaKey_def fmtVerifyCaptchaTicket_def ServerFullName_def
  Minute_def Second_def Let_def

lemma store_c1_eval:
  "store_c1 =
     \<lparr>kv = [''edu.mall:captcha:c1'' \<mapsto> \<lparr>val = json_c1, deadline = Some 120000000000\<rparr>],
      clock = 0, faults = [],
      sent = [SET ''edu.mall:captcha:c1'' json_c1 120000000000]\<rparr>"
  by (simp add: store_c1_def GetSlideCaptcha_def captData_c1_def marshal_example_def
      store_empty_def store_simps)

lemma store_c2_eval:
  "store_c2 =
     \<lparr>kv = [''edu.mall:captcha:c2'' \<mapsto> \<lparr>val = json_c2, deadline = Some 120000000000\<rparr>],
      clock = 0, faults = [],
      sent = [SET ''edu.mall:captcha:c2'' json_c2 120000000000]\<rparr>"
  by (simp add: store_c2_def GetSlideCaptcha_def captData_c2_def marshal_example_def
      store_empty_def block_c1_def block_c2_def store_simps)

lemma json_c1_nonempty: "json_c1 \<noteq> []"
  by (simp add: json_c1_def)

lemma json_c2_nonempty: "json_c2 \<noteq> []"
  by (simp add: json_c2_def)

lemma unmarshal_example_c1: "unmarshal_example json_c1 = Some block_c1"
  by (simp add: unmarshal_example_def)

lemma unmarshal_example_c2: "unmarshal_example json_c2 = Some block_c2"
  by (simp add: unmarshal_example_def json_c1_def json_c2_def)

lemma unmarshal_example_oops: "unmarshal_example ''oops'' = None"
  by (simp add: unmarshal_example_def json_c1_def json_c2_def)

lemma store_t1_eval:
  "store_t1 =
     \<lparr>kv = [''edu.mall:captcha:ticket:t1'' \<mapsto> \<lparr>val = ''c1'', deadline = Some 300000000000\<rparr>],
      clock = 0, faults = [],
      sent = [SET ''edu.mall:captcha:c1'' json_c1 120000000000,
              GET ''edu.mall:captcha:c1'', DEL ''edu.mall:captcha:c1'',
              SET ''edu.mall:captcha:ticket:t1'' ''c1'' 300000000000]\<rparr>"
  by (simp add: store_t1_def store_c1_eval CheckSlideCaptcha_def json_c1_nonempty
      unmarshal_example_c1 block_c1_def CheckPoint_def store_simps)

lemma store_flaky_eval:
  "store_flaky =
     \<lparr>kv = [''edu.mall:captcha:c1'' \<mapsto> \<lparr>val = json_c1, deadline = Some 120000000000\<rparr>],
      clock = 0, faults = [None, None, Some ''i/o timeout''],
      sent = [SET ''edu.mall:captcha:c1'' json_c1 120000000000]\<rparr>"
  by (simp add: store_flaky_def store_c1_eval)

lemma store_unreachable_eval:
  "store_unreachable =
     \<lparr>kv = Map.empty, clock = 0, faults = [Some ''dial tcp: connection refused''], sent = []\<rparr>"
  by (simp add: store_unreachable_def store_empty_def)

lemma store_degenerate_eval:
  "store_degenerate =
     \<lparr>kv = [''edu.mall:captcha:e0'' \<mapsto> \<lparr>val = [], deadline = Some 120000000000\<rparr>,
            ''edu.mall:captcha:n0'' \<mapsto> \<lparr>val = ''oops'', deadline = Some 120000000000\<rparr>],
      clock = 0, faults = [],
      sent = [SET ''edu.mall:captcha:e0'' [] 120000000000,
              SET ''edu.mall:captcha:n0'' ''oops'' 120000000000]\<rparr>"
  by (simp add: store_degenerate_def store_empty_def store_simps)

lemma store_c1_live: "live store_c1 (fmtVerifyCaptchaKey ''c1'') = Some json_c1"
  by (simp add: store_c1_eval store_simps)

lemma store_c1_reachable: "faults store_c1 = []"
  by (simp add: store_c1_eval)

lemma issue_c1_eval:
  "GetSlideCaptcha (Inr captData_c1) marshal_example ''c1'' store_empty =
     (store_c1,
      Some \<lparr>captcha_Key = ''c1'', ImageBs64 = ''bWFzdGVy'', TitleImageBs64 = ''dGlsZQ=='',
            TitleHeight = 60, TitleWidth = 60, TitleX = 5, TitleY = 50, captcha_Expire = 110\<rparr>,
      OK)"
  by (simp add: store_c1_eval GetSlideCaptcha_def captData_c1_def marshal_example_def
      block_c1_def store_empty_def store_simps)

lemma verify_c1_eval:
  "CheckSlideCaptcha unmarshal_example ''t1'' store_c1 \<lparr>Key = ''c1'', SlideX = 103, SlideY = 52\<rparr>
     = (store_t1, Some \<lparr>Ticket = ''t1'', ticket_Expire = 280\<rparr>, OK)"
  by (simp add: store_t1_eval store_c1_eval CheckSlideCaptcha_def json_c1_nonempty
      unmarshal_example_c1 block_c1_def CheckPoint_def store_simps)

lemma second_ticket_after_failed_delete:
  "(let req = \<lparr>Key = ''c1'', SlideX = 100, SlideY = 50\<rparr>;
        (s1, resp1, e1) = CheckSlideCaptcha unmarshal_example ''t1'' store_c1_del_lost req;
        (s2, resp2, e2) = CheckSlideCaptcha unmarshal_example ''t2'' s1 req
    in resp1 = Some \<lparr>Ticket = ''t1'', ticket_Expire = 280\<rparr> \<and> e1 = OK
       \<and> resp2 = Some \<lparr>Ticket = ''t2'', ticket_Expire = 280\<rparr> \<and> e2 = OK)"
  by (simp add: store_c1_del_lost_def store_c1_eval CheckSlideCaptcha_def json_c1_nonempty
      unmarshal_example_c1 block_c1_def CheckPoint_def store_simps)

section \<open>Properties of the specification\<close>

text \<open>
  C1. Destructive single-use retrieval. Both take operations send the \<open>DEL\<close> and do not
  look at its reply. On a store that executes the \<open>GET\<close> of a take and fails its \<open>DEL\<close>,
  a call returns the stored value and the next call on the same id returns it again, for
  the challenge and for the ticket alike; so a stored value can be observed more than
  once. When every command is executed each id yields its value at most once
  (\<open>take_single_use_when_executed\<close>).
\<close>

theorem take_returns_value_again_after_failed_delete:
  "snd (GetCaptchaKey store_c1_del_lost ''c1'') = (json_c1, None)
   \<and> snd (GetCaptchaKey (fst (GetCaptchaKey store_c1_del_lost ''c1'')) ''c1'') = (json_c1, None)
   \<and> snd (GetCaptchaTicket store_t1_del_lost ''t1'') = (''c1'', None)
   \<and> snd (GetCaptchaTicket (fst (GetCaptchaTicket store_t1_del_lost ''t1'')) ''t1'')
       = (''c1'', None)"
  by (simp add: store_c1_del_lost_def store_t1_del_lost_def store_c1_eval store_t1_eval
      store_simps)

text \<open>
  C2. Anti-replay, on the spec's second scenario. The challenge \<open>c2\<close> has the solution
  (10, 10). A first verification submits (50, 50) and fails with \<open>InvalidCaptchaErr\<close>;
  a second one submits the correct point. The second call gives no ticket and leaves
  the store empty, so the challenge cannot be judged twice (\<open>CheckSlideCaptcha_replay\<close>
  is the general fact). But the failure it reports is \<open>RedisErr\<close> with \<open>redis: nil\<close>,
  the same code and message as for an unreachable store, and not the outcome with the
  expired-slider message that the engine has for a consumed challenge.
\<close>

theorem replay_reports_redis_error:
  "(let req1 = \<lparr>Key = ''c2'', SlideX = 50, SlideY = 50\<rparr>;
        req2 = \<lparr>Key = ''c2'', SlideX = 10, SlideY = 10\<rparr>;
        (s1, resp1, e1) = CheckSlideCaptcha unmarshal_example ''t2'' store_c2 req1;
        (s2, resp2, e2) = CheckSlideCaptcha unmarshal_example ''t3'' s1 req2
    in resp1 = None \<and> e1 = InvalidCaptchaErr
       \<and> resp2 = None
       \<and> e2 = \<lparr>Code = 10001, Msg = ''Redis Error'', ErrMsg = ''Redis Error,redis: nil''\<rparr>
       \<and> e2 \<noteq> WithMsg ParamErr msg_slide_expired
       \<and> kv s2 = Map.empty)"
  by (simp add: CheckSlideCaptcha_def store_c2_eval json_c2_nonempty unmarshal_example_c2
      block_c2_def CheckPoint_def store_simps WithErr_def WithMsg_def RedisErr_def ParamErr_def)

text \<open>
  C3. Tolerance matching. When the store executes its commands, the challenge is live
  and its stored value is a non-empty document that decodes to the solution \<open>dot\<close>,
  verification succeeds if and only if the submitted point is within 5 of the solution
  on each axis; it then returns the ticket with \<open>OK\<close>, and otherwise returns
  \<open>InvalidCaptchaErr\<close>. The engine calls \<open>CheckPoint\<close> with the submitted point first,
  the solution second and the padding 5; what \<open>CheckPoint\<close> computes is taken from the
  spec.
\<close>

theorem verification_tolerance:
  assumes "faults s = []"
    and "live s (fmtVerifyCaptchaKey (Key req)) = Some captData"
    and "captData \<noteq> []"
    and "json_Unmarshal captData = Some dot"
  shows "(IsOk (snd (snd (CheckSlideCaptcha json_Unmarshal t s req)))
            \<longleftrightarrow> \<bar>SlideX req - X dot\<bar> \<le> 5 \<and> \<bar>SlideY req - Y dot\<bar> \<le> 5)
       \<and> snd (CheckSlideCaptcha json_Unmarshal t s req) =
           (if \<bar>SlideX req - X dot\<bar> \<le> 5 \<and> \<bar>SlideY req - Y dot\<bar> \<le> 5
            then (Some \<lparr>Ticket = t, ticket_Expire = 280\<rparr>, OK)
            else (None, InvalidCaptchaErr))"
  using assms
  by (simp add: CheckSlideCaptcha_eq perform_eq fault_at_reachable CheckPoint_def)

theorem verification_tolerance_witness:
  "faults store_c1 = []
   \<and> live store_c1 (fmtVerifyCaptchaKey ''c1'') = Some json_c1
   \<and> json_c1 \<noteq> []
   \<and> unmarshal_example json_c1 = Some block_c1
   \<and> snd (CheckSlideCaptcha unmarshal_example ''t1'' store_c1
            \<lparr>Key = ''c1'', SlideX = 105, SlideY = 45\<rparr>)
       = (Some \<lparr>Ticket = ''t1'', ticket_Expire = 280\<rparr>, OK)
   \<and> snd (CheckSlideCaptcha unmarshal_example ''t1'' store_c1
            \<lparr>Key = ''c1'', SlideX = 106, SlideY = 50\<rparr>)
       = (None, InvalidCaptchaErr)"
  using verification_tolerance
          [of store_c1 "\<lparr>Key = ''c1'', SlideX = 105, SlideY = 45\<rparr>" json_c1
              unmarshal_example block_c1 "''t1''"]
        verification_tolerance
          [of store_c1 "\<lparr>Key = ''c1'', SlideX = 106, SlideY = 50\<rparr>" json_c1
              unmarshal_example block_c1 "''t1''"]
        store_c1_reachable store_c1_live json_c1_nonempty unmarshal_example_c1
  by (simp add: block_c1_def)

text \<open>
  C4. Failure on an absent challenge. Verification of an id that was never issued, and
  verification of a challenge whose two minutes have passed, both return \<open>RedisErr\<close>
  (code 10001, message \<open>Redis Error\<close>) with the detail \<open>redis: nil\<close>; an unreachable
  store gives the same code and message with another detail. None of them is the
  parameter error that carries the expired-slider message (code 400): the engine returns
  that one only when the store holds an empty value
  (\<open>expired_message_only_for_empty_value\<close>).
\<close>

theorem absent_challenge_reports_redis_error:
  "snd (CheckSlideCaptcha unmarshal_example ''t0'' store_empty
         \<lparr>Key = ''c0'', SlideX = 10, SlideY = 10\<rparr>)
     = (None, \<lparr>Code = 10001, Msg = ''Redis Error'', ErrMsg = ''Redis Error,redis: nil''\<rparr>)
   \<and> snd (CheckSlideCaptcha unmarshal_example ''t0'' (advance (Minute * 2) store_c1)
         \<lparr>Key = ''c1'', SlideX = 100, SlideY = 50\<rparr>)
     = (None, \<lparr>Code = 10001, Msg = ''Redis Error'', ErrMsg = ''Redis Error,redis: nil''\<rparr>)
   \<and> snd (CheckSlideCaptcha unmarshal_example ''t0'' store_unreachable
         \<lparr>Key = ''c0'', SlideX = 10, SlideY = 10\<rparr>)
     = (None, \<lparr>Code = 10001, Msg = ''Redis Error'',
               ErrMsg = ''Redis Error,dial tcp: connection refused''\<rparr>)
   \<and> WithMsg ParamErr msg_slide_expired
     = \<lparr>Code = 400, Msg = ''Param Error,'' @ msg_slide_expired, ErrMsg = []\<rparr>"
  by (simp add: CheckSlideCaptcha_def store_empty_def store_c1_eval store_unreachable_eval
      store_simps WithErr_def WithMsg_def RedisErr_def ParamErr_def)

text \<open>
  C5. Ticket creation and binding. A verification succeeds exactly when its \<open>GET\<close> is
  executed, finds a live non-empty value that decodes to a solution within tolerance of
  the submitted point, and its \<open>SET\<close> (the third command) is executed. On success the
  ticket returned is the generated id and the record stored under it holds the request's
  challenge id with a deadline five minutes ahead, so that a redemption within five
  minutes whose \<open>GET\<close> is executed returns that challenge id. On any failure no response
  is returned and no record is written: every key holds what it held before, except that
  the challenge may be gone. For a ticket id that is new to the store, a record exists
  under it afterwards if and only if the verification succeeded.
\<close>

theorem ticket_binding:
  assumes "CheckSlideCaptcha json_Unmarshal t s req = (s', resp, e)"
  shows "(IsOk e \<longleftrightarrow>
            (\<exists>captData dot.
               fault_at s 0 = None \<and> live s (fmtVerifyCaptchaKey (Key req)) = Some captData
               \<and> captData \<noteq> [] \<and> json_Unmarshal captData = Some dot
               \<and> CheckPoint (SlideX req) (SlideY req) (X dot) (Y dot) 5
               \<and> fault_at s 2 = None))
       \<and> (IsOk e \<longrightarrow>
            e = OK \<and> resp = Some \<lparr>Ticket = t, ticket_Expire = 280\<rparr>
            \<and> kv s' (fmtVerifyCaptchaTicket t)
                = Some \<lparr>val = Key req, deadline = Some (clock s + Minute * 5)\<rparr>
            \<and> (\<forall>d. fault_at s' 0 = None \<and> d < Minute * 5 \<longrightarrow>
                   snd (GetCaptchaTicket (advance d s') t) = (Key req, None)))
       \<and> (\<not> IsOk e \<longrightarrow>
            resp = None
            \<and> (\<forall>k. kv s' k = kv s k \<or> (k = fmtVerifyCaptchaKey (Key req) \<and> kv s' k = None)))
       \<and> (kv s (fmtVerifyCaptchaTicket t) = None \<longrightarrow>
            (kv s' (fmtVerifyCaptchaTicket t) \<noteq> None \<longleftrightarrow> IsOk e))"
proof -
  have succ: "IsOk e \<longleftrightarrow>
            (\<exists>captData dot.
               fault_at s 0 = None \<and> live s (fmtVerifyCaptchaKey (Key req)) = Some captData
               \<and> captData \<noteq> [] \<and> json_Unmarshal captData = Some dot
               \<and> CheckPoint (SlideX req) (SlideY req) (X dot) (Y dot) 5
               \<and> fault_at s 2 = None)"
    using CheckSlideCaptcha_success_iff [of json_Unmarshal t s req] assms by simp
  have ok: "e = OK \<and> resp = Some \<lparr>Ticket = t, ticket_Expire = 280\<rparr>
            \<and> kv s' (fmtVerifyCaptchaTicket t)
                = Some \<lparr>val = Key req, deadline = Some (clock s + Minute * 5)\<rparr>
            \<and> clock s' = clock s" if "IsOk e"
    using assms that
    by (auto simp: CheckSlideCaptcha_eq perform_eq split: option.splits if_splits)
  have redeem: "snd (GetCaptchaTicket (advance d s') t) = (Key req, None)"
    if "IsOk e" "fault_at s' 0 = None" "d < Minute * 5" for d
  proof -
    have "live (advance d s') (fmtVerifyCaptchaTicket t) = Some (Key req)"
      using live_advance_entry [of s' "fmtVerifyCaptchaTicket t" "Key req" "Minute * 5" d]
        ok [OF that(1)] that(3) by simp
    then show ?thesis
      using perform_eq [of "advance d s'" "takeTicket t"] that(2) by simp
  qed
  have bad: "resp = None
            \<and> (\<forall>k. kv s' k = kv s k \<or> (k = fmtVerifyCaptchaKey (Key req) \<and> kv s' k = None))"
    if "\<not> IsOk e"
    using assms that
    by (auto simp: CheckSlideCaptcha_eq perform_eq split: option.splits if_splits)
  have fresh: "kv s' (fmtVerifyCaptchaTicket t) \<noteq> None \<longleftrightarrow> IsOk e"
    if "kv s (fmtVerifyCaptchaTicket t) = None"
  proof (cases "IsOk e")
    case True
    then show ?thesis using ok by simp
  next
    case False
    then show ?thesis using bad [OF False] that by metis
  qed
  show ?thesis using succ ok redeem bad fresh by blast
qed

theorem ticket_binding_witness:
  "CheckSlideCaptcha unmarshal_example ''t1'' store_c1 \<lparr>Key = ''c1'', SlideX = 103, SlideY = 52\<rparr>
     = (store_t1, Some \<lparr>Ticket = ''t1'', ticket_Expire = 280\<rparr>, OK)
   \<and> IsOk OK
   \<and> kv store_t1 (fmtVerifyCaptchaTicket ''t1'')
       = Some \<lparr>val = ''c1'', deadline = Some (clock store_c1 + Minute * 5)\<rparr>
   \<and> fault_at store_t1 0 = None \<and> Second < Minute * 5
   \<and> snd (GetCaptchaTicket (advance Second store_t1) ''t1'') = (''c1'', None)
   \<and> snd (CheckSlideCaptcha unmarshal_example ''t1'' store_c1
            \<lparr>Key = ''c1'', SlideX = 50, SlideY = 50\<rparr>) = (None, InvalidCaptchaErr)
   \<and> kv (fst (CheckSlideCaptcha unmarshal_example ''t1'' store_c1
            \<lparr>Key = ''c1'', SlideX = 50, SlideY = 50\<rparr>)) (fmtVerifyCaptchaTicket ''t1'') = None
   \<and> snd (CheckSlideCaptcha unmarshal_example ''t1'' store_flaky
            \<lparr>Key = ''c1'', SlideX = 103, SlideY = 52\<rparr>)
       = (None, WithErr RedisErr (Some (other_error ''i/o timeout'')))
   \<and> kv (fst (CheckSlideCaptcha unmarshal_example ''t1'' store_flaky
            \<lparr>Key = ''c1'', SlideX = 103, SlideY = 52\<rparr>)) (fmtVerifyCaptchaTicket ''t1'') = None"
proof -
  let ?miss = "CheckSlideCaptcha unmarshal_example ''t1'' store_c1
            \<lparr>Key = ''c1'', SlideX = 50, SlideY = 50\<rparr>"
  let ?lost = "CheckSlideCaptcha unmarshal_example ''t1'' store_flaky
            \<lparr>Key = ''c1'', SlideX = 103, SlideY = 52\<rparr>"
  note ok = ticket_binding [OF verify_c1_eval]
  have f: "fault_at store_t1 0 = None" "Second < Minute * 5"
    by (simp_all add: store_t1_eval fault_at_def Minute_def Second_def)
  have k: "kv store_t1 (fmtVerifyCaptchaTicket ''t1'')
       = Some \<lparr>val = ''c1'', deadline = Some (clock store_c1 + Minute * 5)\<rparr>"
    using ok by simp
  have r: "snd (GetCaptchaTicket (advance Second store_t1) ''t1'') = (''c1'', None)"
    using ok f by simp
  have m: "snd ?miss = (None, InvalidCaptchaErr)"
    by (simp add: store_c1_eval CheckSlideCaptcha_def json_c1_nonempty
        unmarshal_example_c1 block_c1_def CheckPoint_def store_simps)
  have l: "snd ?lost = (None, WithErr RedisErr (Some (other_error ''i/o timeout'')))"
    by (simp add: store_flaky_eval CheckSlideCaptcha_def json_c1_nonempty
        unmarshal_example_c1 block_c1_def CheckPoint_def store_simps)
  have fresh: "kv store_c1 (fmtVerifyCaptchaTicket ''t1'') = None"
    "kv store_flaky (fmtVerifyCaptchaTicket ''t1'') = None"
    by (simp_all add: store_flaky_eval store_c1_eval store_simps)
  obtain sm where em: "?miss = (sm, None, InvalidCaptchaErr)"
    using m by (cases ?miss) simp
  obtain sl where el: "?lost = (sl, None, WithErr RedisErr (Some (other_error ''i/o timeout'')))"
    using l by (cases ?lost) simp
  have "kv sm (fmtVerifyCaptchaTicket ''t1'') = None"
    using ticket_binding [OF em] fresh(1) by simp
  then have km: "kv (fst ?miss) (fmtVerifyCaptchaTicket ''t1'') = None"
    using em by simp
  have "kv sl (fmtVerifyCaptchaTicket ''t1'') = None"
    using ticket_binding [OF el] fresh(2) by simp
  then have kl: "kv (fst ?lost) (fmtVerifyCaptchaTicket ''t1'') = None"
    using el by simp
  show ?thesis using verify_c1_eval k f r m km l kl by simp
qed

text \<open>
  C6. Time-to-live constants. A successful issuance ends with a \<open>SET\<close> of the challenge
  with 120 seconds; the record's deadline is 120 seconds after the store's time, and the
  challenge is readable for exactly that long. A successful verification ends with a
  \<open>SET\<close> of the ticket with 300 seconds, with the same consequences.
\<close>

theorem ttl_constants:
  "(GetSlideCaptcha Generate json_Marshal key s = (s1, resp1, e1) \<and> IsOk e1 \<longrightarrow>
      (\<exists>dots.
         kv s1 (fmtVerifyCaptchaKey key)
           = Some \<lparr>val = dots, deadline = Some (clock s1 + 120 * Second)\<rparr>
         \<and> last (sent s1) = SET (fmtVerifyCaptchaKey key) dots (120 * Second)
         \<and> (\<forall>d. live (advance d s1) (fmtVerifyCaptchaKey key)
                  = (if d < 120 * Second then Some dots else None))))
   \<and> (CheckSlideCaptcha json_Unmarshal t v req = (s2, resp2, e2) \<and> IsOk e2 \<longrightarrow>
      kv s2 (fmtVerifyCaptchaTicket t)
        = Some \<lparr>val = Key req, deadline = Some (clock s2 + 300 * Second)\<rparr>
      \<and> last (sent s2) = SET (fmtVerifyCaptchaTicket t) (Key req) (300 * Second)
      \<and> (\<forall>d. live (advance d s2) (fmtVerifyCaptchaTicket t)
               = (if d < 300 * Second then Some (Key req) else None)))"
proof (rule conjI; rule impI)
  assume a: "GetSlideCaptcha Generate json_Marshal key s = (s1, resp1, e1) \<and> IsOk e1"
  then obtain dots where d:
    "clock s1 = clock s"
    "sent s1 = sent s @ [SET (fmtVerifyCaptchaKey key) dots (Minute * 2)]"
    "kv s1 = (kv s)(fmtVerifyCaptchaKey key \<mapsto>
                  \<lparr>val = dots, deadline = Some (clock s + Minute * 2)\<rparr>)"
    using GetSlideCaptcha_ok [of Generate json_Marshal key s s1 resp1 e1] by blast
  have k: "kv s1 (fmtVerifyCaptchaKey key)
      = Some \<lparr>val = dots, deadline = Some (clock s1 + 120 * Second)\<rparr>"
    using d by (simp add: two_minutes)
  show "\<exists>dots.
         kv s1 (fmtVerifyCaptchaKey key)
           = Some \<lparr>val = dots, deadline = Some (clock s1 + 120 * Second)\<rparr>
         \<and> last (sent s1) = SET (fmtVerifyCaptchaKey key) dots (120 * Second)
         \<and> (\<forall>d. live (advance d s1) (fmtVerifyCaptchaKey key)
                  = (if d < 120 * Second then Some dots else None))"
    using k d(2) live_advance_entry [OF k] by (auto simp: two_minutes)
next
  assume a: "CheckSlideCaptcha json_Unmarshal t v req = (s2, resp2, e2) \<and> IsOk e2"
  then have c: "clock s2 = clock v"
    "last (sent s2) = SET (fmtVerifyCaptchaTicket t) (Key req) (Minute * 5)"
    "kv s2 (fmtVerifyCaptchaTicket t)
           = Some \<lparr>val = Key req, deadline = Some (clock v + Minute * 5)\<rparr>"
    using CheckSlideCaptcha_ok [of json_Unmarshal t v req s2 resp2 e2] by simp_all
  have k: "kv s2 (fmtVerifyCaptchaTicket t)
        = Some \<lparr>val = Key req, deadline = Some (clock s2 + 300 * Second)\<rparr>"
    using c by (simp add: five_minutes)
  show "kv s2 (fmtVerifyCaptchaTicket t)
        = Some \<lparr>val = Key req, deadline = Some (clock s2 + 300 * Second)\<rparr>
      \<and> last (sent s2) = SET (fmtVerifyCaptchaTicket t) (Key req) (300 * Second)
      \<and> (\<forall>d. live (advance d s2) (fmtVerifyCaptchaTicket t)
               = (if d < 300 * Second then Some (Key req) else None))"
    using k c(2) live_advance_entry [OF k] by (auto simp: five_minutes)
qed

theorem ttl_constants_witness:
  "GetSlideCaptcha (Inr captData_c1) marshal_example ''c1'' store_empty =
     (store_c1,
      Some \<lparr>captcha_Key = ''c1'', ImageBs64 = ''bWFzdGVy'', TitleImageBs64 = ''dGlsZQ=='',
            TitleHeight = 60, TitleWidth = 60, TitleX = 5, TitleY = 50, captcha_Expire = 110\<rparr>,
      OK)
   \<and> IsOk OK
   \<and> last (sent store_c1) = SET (fmtVerifyCaptchaKey ''c1'') json_c1 (120 * Second)
   \<and> live (advance (120 * Second - 1) store_c1) (fmtVerifyCaptchaKey ''c1'') = Some json_c1
   \<and> live (advance (120 * Second) store_c1) (fmtVerifyCaptchaKey ''c1'') = None
   \<and> CheckSlideCaptcha unmarshal_example ''t1'' store_c1
        \<lparr>Key = ''c1'', SlideX = 103, SlideY = 52\<rparr>
       = (store_t1, Some \<lparr>Ticket = ''t1'', ticket_Expire = 280\<rparr>, OK)
   \<and> last (sent store_t1) = SET (fmtVerifyCaptchaTicket ''t1'') ''c1'' (300 * Second)
   \<and> live (advance (300 * Second - 1) store_t1) (fmtVerifyCaptchaTicket ''t1'') = Some ''c1''
   \<and> live (advance (300 * Second) store_t1) (fmtVerifyCaptchaTicket ''t1'') = None"
proof -
  let ?r = "\<lparr>captcha_Key = ''c1'', ImageBs64 = ''bWFzdGVy'', TitleImageBs64 = ''dGlsZQ=='',
            TitleHeight = 60, TitleWidth = 60, TitleX = 5, TitleY = 50, captcha_Expire = 110\<rparr>"
  let ?k = "\<lparr>Ticket = ''t1'', ticket_Expire = 280\<rparr>"
  note t = ttl_constants
    [where Generate = "Inr captData_c1" and json_Marshal = marshal_example and key = "''c1''"
       and s = store_empty and ?s1.0 = store_c1 and ?e1.0 = OK
       and json_Unmarshal = unmarshal_example and t = "''t1''" and v = store_c1
       and req = "\<lparr>Key = ''c1'', SlideX = 103, SlideY = 52\<rparr>"
       and ?s2.0 = store_t1 and ?e2.0 = OK
       and ?resp1.0 = "Some ?r" and ?resp2.0 = "Some ?k"]
  obtain dots where d:
    "last (sent store_c1) = SET (fmtVerifyCaptchaKey ''c1'') dots (120 * Second)"
    "\<forall>d. live (advance d store_c1) (fmtVerifyCaptchaKey ''c1'')
           = (if d < 120 * Second then Some dots else None)"
    using t issue_c1_eval by auto
  have "dots = json_c1" using d(1) by (simp add: store_c1_eval)
  then have c: "last (sent store_c1) = SET (fmtVerifyCaptchaKey ''c1'') json_c1 (120 * Second)"
    "live (advance (120 * Second - 1) store_c1) (fmtVerifyCaptchaKey ''c1'') = Some json_c1"
    "live (advance (120 * Second) store_c1) (fmtVerifyCaptchaKey ''c1'') = None"
    using d by simp_all
  have k: "last (sent store_t1) = SET (fmtVerifyCaptchaTicket ''t1'') ''c1'' (300 * Second)"
    "\<forall>d. live (advance d store_t1) (fmtVerifyCaptchaTicket ''t1'')
           = (if d < 300 * Second then Some ''c1'' else None)"
    using t verify_c1_eval by simp_all
  show ?thesis using issue_c1_eval verify_c1_eval c k by simp
qed

text \<open>
  C7. No partial state on failed issuance. Issuance succeeds exactly when the generator
  returns a puzzle with a solution, the solution is serialised, both images are encoded
  and the \<open>SET\<close> is executed. When it does not succeed, no response is returned and the
  stored records are those of before; so the records change only on success, and then by
  the one record of the challenge, under the key that the response returns. (A command
  that fails is taken to have had no effect on the store.)
\<close>

theorem failed_issuance_stores_nothing:
  assumes "GetSlideCaptcha Generate json_Marshal key s = (s', resp, e)"
  shows "(IsOk e \<longleftrightarrow>
            (\<exists>captData dotData dots mBs64Data tBs64Data.
               Generate = Inr captData \<and> GetData captData = Some dotData
               \<and> json_Marshal dotData = Inr dots
               \<and> GetMasterImage_ToBase64 captData = Inr mBs64Data
               \<and> GetTileImage_ToBase64 captData = Inr tBs64Data
               \<and> fault_at s 0 = None))
       \<and> (\<not> IsOk e \<longrightarrow> resp = None \<and> kv s' = kv s \<and> clock s' = clock s)
       \<and> (kv s' \<noteq> kv s \<longrightarrow> IsOk e)
       \<and> (IsOk e \<longrightarrow>
            (\<exists>r dots. resp = Some r \<and> captcha_Key r = key
               \<and> kv s' = (kv s)(fmtVerifyCaptchaKey key \<mapsto>
                      \<lparr>val = dots, deadline = Some (clock s + Minute * 2)\<rparr>)))"
proof -
  have "IsOk e \<longleftrightarrow>
            (\<exists>captData dotData dots mBs64Data tBs64Data.
               Generate = Inr captData \<and> GetData captData = Some dotData
               \<and> json_Marshal dotData = Inr dots
               \<and> GetMasterImage_ToBase64 captData = Inr mBs64Data
               \<and> GetTileImage_ToBase64 captData = Inr tBs64Data
               \<and> fault_at s 0 = None)"
    using GetSlideCaptcha_success_iff [of Generate json_Marshal key s] assms by simp
  moreover have "resp = None \<and> kv s' = kv s \<and> clock s' = clock s" if "\<not> IsOk e"
    using GetSlideCaptcha_failed [OF assms that] .
  moreover have "\<exists>r dots. resp = Some r \<and> captcha_Key r = key
               \<and> kv s' = (kv s)(fmtVerifyCaptchaKey key \<mapsto>
                      \<lparr>val = dots, deadline = Some (clock s + Minute * 2)\<rparr>)" if "IsOk e"
    using GetSlideCaptcha_ok [OF assms that] by blast
  ultimately show ?thesis by blast
qed

theorem failed_issuance_stores_nothing_witness:
  "GetSlideCaptcha (Inr captData_c1) marshal_example ''c1'' store_empty =
     (store_c1,
      Some \<lparr>captcha_Key = ''c1'', ImageBs64 = ''bWFzdGVy'', TitleImageBs64 = ''dGlsZQ=='',
            TitleHeight = 60, TitleWidth = 60, TitleX = 5, TitleY = 50, captcha_Expire = 110\<rparr>,
      OK)
   \<and> IsOk OK \<and> kv store_c1 \<noteq> kv store_empty
   \<and> snd (GetSlideCaptcha (Inl (other_error ''generate: no image'')) marshal_example ''c3'' store_c1)
       = (None, WithErr ServerErr (Some (other_error ''generate: no image'')))
   \<and> \<not> IsOk (WithErr ServerErr (Some (other_error ''generate: no image'')))
   \<and> kv (fst (GetSlideCaptcha (Inl (other_error ''generate: no image'')) marshal_example ''c3''
                 store_c1)) = kv store_c1
   \<and> snd (GetSlideCaptcha (Inr captData_c1) marshal_example ''c3'' store_unreachable)
       = (None, WithErr RedisErr (Some (other_error ''dial tcp: connection refused'')))
   \<and> \<not> IsOk (WithErr RedisErr (Some (other_error ''dial tcp: connection refused'')))
   \<and> kv (fst (GetSlideCaptcha (Inr captData_c1) marshal_example ''c3'' store_unreachable))
       = kv store_unreachable"
proof -
  let ?gen = "GetSlideCaptcha (Inl (other_error ''generate: no image'')) marshal_example ''c3''
                 store_c1"
  let ?set = "GetSlideCaptcha (Inr captData_c1) marshal_example ''c3'' store_unreachable"
  have g: "snd ?gen = (None, WithErr ServerErr (Some (other_error ''generate: no image'')))"
    by (simp add: GetSlideCaptcha_def)
  have u: "snd ?set = (None, WithErr RedisErr (Some (other_error ''dial tcp: connection refused'')))"
    by (simp add: store_unreachable_eval GetSlideCaptcha_def captData_c1_def marshal_example_def
        store_simps)
  obtain sg where eg: "?gen = (sg, None, WithErr ServerErr (Some (other_error ''generate: no image'')))"
    using g by (cases ?gen) simp
  obtain su where eu:
    "?set = (su, None, WithErr RedisErr (Some (other_error ''dial tcp: connection refused'')))"
    using u by (cases ?set) simp
  have "kv sg = kv store_c1"
    using failed_issuance_stores_nothing [OF eg] by simp
  then have kg: "kv (fst ?gen) = kv store_c1" using eg by simp
  have "kv su = kv store_unreachable"
    using failed_issuance_stores_nothing [OF eu] by simp
  then have ku: "kv (fst ?set) = kv store_unreachable" using eu by simp
  have "kv store_c1 ''edu.mall:captcha:c1'' \<noteq> kv store_empty ''edu.mall:captcha:c1''"
    by (simp add: store_c1_eval store_empty_def)
  then have ne: "kv store_c1 \<noteq> kv store_empty" by metis
  show ?thesis using issue_c1_eval ne g kg u ku by simp
qed

text \<open>
  C8. The advisory hints understate the time-to-live. Every response of an issuance
  carries the hint 110, and the challenge stored with it has a deadline 120 seconds
  ahead: 110 seconds is at most 120, and the challenge is readable at every instant
  before the hint runs out. Every response of a verification carries the hint 280, and
  the ticket has a deadline 300 seconds ahead, with the same consequences.
\<close>

theorem expiry_hints_understate_ttl:
  "(GetSlideCaptcha Generate json_Marshal key s = (s1, Some r1, e1) \<longrightarrow>
      captcha_Expire r1 = 110
      \<and> (\<exists>dots.
           kv s1 (fmtVerifyCaptchaKey key)
             = Some \<lparr>val = dots, deadline = Some (clock s1 + 120 * Second)\<rparr>
           \<and> captcha_Expire r1 * Second \<le> 120 * Second
           \<and> (\<forall>d. d < captcha_Expire r1 * Second \<longrightarrow>
                  live (advance d s1) (fmtVerifyCaptchaKey key) = Some dots)))
   \<and> (CheckSlideCaptcha json_Unmarshal t v req = (s2, Some r2, e2) \<longrightarrow>
      ticket_Expire r2 = 280
      \<and> kv s2 (fmtVerifyCaptchaTicket t)
          = Some \<lparr>val = Key req, deadline = Some (clock s2 + 300 * Second)\<rparr>
      \<and> ticket_Expire r2 * Second \<le> 300 * Second
      \<and> (\<forall>d. d < ticket_Expire r2 * Second \<longrightarrow>
             live (advance d s2) (fmtVerifyCaptchaTicket t) = Some (Key req)))"
proof (rule conjI; rule impI)
  assume a: "GetSlideCaptcha Generate json_Marshal key s = (s1, Some r1, e1)"
  have ok: "IsOk e1" using GetSlideCaptcha_resp [OF a] .
  obtain dots where d: "captcha_Expire r1 = 110" "clock s1 = clock s"
    "kv s1 = (kv s)(fmtVerifyCaptchaKey key \<mapsto>
                  \<lparr>val = dots, deadline = Some (clock s + Minute * 2)\<rparr>)"
    using GetSlideCaptcha_ok [OF a ok] by auto
  have k: "kv s1 (fmtVerifyCaptchaKey key)
      = Some \<lparr>val = dots, deadline = Some (clock s1 + 120 * Second)\<rparr>"
    using d by (simp add: two_minutes)
  have "live (advance x s1) (fmtVerifyCaptchaKey key) = Some dots"
    if "x < captcha_Expire r1 * Second" for x
    using live_advance_entry [OF k, of x] that d(1) by (simp add: Second_def)
  then show "captcha_Expire r1 = 110
      \<and> (\<exists>dots.
           kv s1 (fmtVerifyCaptchaKey key)
             = Some \<lparr>val = dots, deadline = Some (clock s1 + 120 * Second)\<rparr>
           \<and> captcha_Expire r1 * Second \<le> 120 * Second
           \<and> (\<forall>d. d < captcha_Expire r1 * Second \<longrightarrow>
                  live (advance d s1) (fmtVerifyCaptchaKey key) = Some dots))"
    using d(1) k by (auto simp: Second_def)
next
  assume a: "CheckSlideCaptcha json_Unmarshal t v req = (s2, Some r2, e2)"
  have ok: "IsOk e2" using CheckSlideCaptcha_resp [OF a] .
  have c: "r2 = \<lparr>Ticket = t, ticket_Expire = 280\<rparr>" "clock s2 = clock v"
    "kv s2 (fmtVerifyCaptchaTicket t)
           = Some \<lparr>val = Key req, deadline = Some (clock v + Minute * 5)\<rparr>"
    using CheckSlideCaptcha_ok [OF a ok] by simp_all
  have k: "kv s2 (fmtVerifyCaptchaTicket t)
        = Some \<lparr>val = Key req, deadline = Some (clock s2 + 300 * Second)\<rparr>"
    using c by (simp add: five_minutes)
  have "live (advance x s2) (fmtVerifyCaptchaTicket t) = Some (Key req)"
    if "x < ticket_Expire r2 * Second" for x
    using live_advance_entry [OF k, of x] that c(1) by (simp add: Second_def)
  then show "ticket_Expire r2 = 280
      \<and> kv s2 (fmtVerifyCaptchaTicket t)
          = Some \<lparr>val = Key req, deadline = Some (clock s2 + 300 * Second)\<rparr>
      \<and> ticket_Expire r2 * Second \<le> 300 * Second
      \<and> (\<forall>d. d < ticket_Expire r2 * Second \<longrightarrow>
             live (advance d s2) (fmtVerifyCaptchaTicket t) = Some (Key req))"
    using c(1) k by (auto simp: Second_def)
qed

theorem expiry_hints_understate_ttl_witness:
  "GetSlideCaptcha (Inr captData_c1) marshal_example ''c1'' store_empty =
     (store_c1,
      Some \<lparr>captcha_Key = ''c1'', ImageBs64 = ''bWFzdGVy'', TitleImageBs64 = ''dGlsZQ=='',
            TitleHeight = 60, TitleWidth = 60, TitleX = 5, TitleY = 50, captcha_Expire = 110\<rparr>,
      OK)
   \<and> (110 :: int) * Second \<le> 120 * Second
   \<and> live (advance (110 * Second - 1) store_c1) (fmtVerifyCaptchaKey ''c1'') = Some json_c1
   \<and> CheckSlideCaptcha unmarshal_example ''t1'' store_c1
        \<lparr>Key = ''c1'', SlideX = 103, SlideY = 52\<rparr>
       = (store_t1, Some \<lparr>Ticket = ''t1'', ticket_Expire = 280\<rparr>, OK)
   \<and> (280 :: int) * Second \<le> 300 * Second
   \<and> live (advance (280 * Second - 1) store_t1) (fmtVerifyCaptchaTicket ''t1'') = Some ''c1''"
proof -
  let ?r = "\<lparr>captcha_Key = ''c1'', ImageBs64 = ''bWFzdGVy'', TitleImageBs64 = ''dGlsZQ=='',
            TitleHeight = 60, TitleWidth = 60, TitleX = 5, TitleY = 50, captcha_Expire = 110\<rparr>"
  let ?k = "\<lparr>Ticket = ''t1'', ticket_Expire = 280\<rparr>"
  note t = expiry_hints_understate_ttl
    [where Generate = "Inr captData_c1" and json_Marshal = marshal_example and key = "''c1''"
       and s = store_empty and ?s1.0 = store_c1 and ?e1.0 = OK
       and json_Unmarshal = unmarshal_example and t = "''t1''" and v = store_c1
       and req = "\<lparr>Key = ''c1'', SlideX = 103, SlideY = 52\<rparr>"
       and ?s2.0 = store_t1 and ?e2.0 = OK
       and ?r1.0 = ?r and ?r2.0 = ?k]
  obtain dots where d:
    "kv store_c1 (fmtVerifyCaptchaKey ''c1'')
       = Some \<lparr>val = dots, deadline = Some (clock store_c1 + 120 * Second)\<rparr>"
    "\<forall>d. d < 110 * Second \<longrightarrow> live (advance d store_c1) (fmtVerifyCaptchaKey ''c1'') = Some dots"
    using t issue_c1_eval by auto
  have "dots = json_c1" using d(1) by (simp add: store_c1_eval store_simps)
  then have c: "live (advance (110 * Second - 1) store_c1) (fmtVerifyCaptchaKey ''c1'') = Some json_c1"
    using d(2) by simp
  have k: "live (advance (280 * Second - 1) store_t1) (fmtVerifyCaptchaTicket ''t1'') = Some ''c1''"
    using t verify_c1_eval by simp
  show ?thesis using issue_c1_eval verify_c1_eval c k by (simp add: Second_def)
qed

text \<open>
  C9. A take that returns an error, the key-absent \<open>redis.Nil\<close> included, has issued the
  \<open>GET\<close> and nothing else: no \<open>DEL\<close> is sent, and the stored records and the clock
  are as before. A take that returns no error has read a live value and has issued the
  \<open>GET\<close> followed by the \<open>DEL\<close> of the same key. This holds for \<open>GetCaptchaKey\<close> and
  for \<open>GetCaptchaTicket\<close>.
\<close>

theorem take_error_issues_no_delete:
  "(GetCaptchaKey v key = (v', s, Some err) \<longrightarrow>
      kv v' = kv v \<and> clock v' = clock v \<and> sent v' = sent v @ [GET (fmtVerifyCaptchaKey key)])
   \<and> (GetCaptchaTicket v key = (v', s, Some err) \<longrightarrow>
      kv v' = kv v \<and> clock v' = clock v \<and> sent v' = sent v @ [GET (fmtVerifyCaptchaTicket key)])
   \<and> (GetCaptchaKey v key = (v', s, None) \<longrightarrow>
      live v (fmtVerifyCaptchaKey key) = Some s
      \<and> sent v' = sent v @ [GET (fmtVerifyCaptchaKey key), DEL (fmtVerifyCaptchaKey key)])
   \<and> (GetCaptchaTicket v key = (v', s, None) \<longrightarrow>
      live v (fmtVerifyCaptchaTicket key) = Some s
      \<and> sent v' = sent v @ [GET (fmtVerifyCaptchaTicket key), DEL (fmtVerifyCaptchaTicket key)])"
  using perform_error [of v "takeChallenge key" v' s err]
        perform_error [of v "takeTicket key" v' s err]
        perform_ok [of v "takeChallenge key" v' s]
        perform_ok [of v "takeTicket key" v' s]
  by simp

theorem take_error_issues_no_delete_witness:
  "GetCaptchaKey store_empty ''c1''
     = (store_empty\<lparr>sent := [GET ''edu.mall:captcha:c1'']\<rparr>, [], Some redis_Nil)
   \<and> kv (store_empty\<lparr>sent := [GET ''edu.mall:captcha:c1'']\<rparr>) = kv store_empty
   \<and> GetCaptchaTicket store_down ''t1''
     = (store_c1\<lparr>sent := sent store_c1 @ [GET ''edu.mall:captcha:ticket:t1'']\<rparr>, [],
        Some (other_error ''dial tcp: connection refused''))
   \<and> kv (store_c1\<lparr>sent := sent store_c1 @ [GET ''edu.mall:captcha:ticket:t1'']\<rparr>) = kv store_down
   \<and> snd (GetCaptchaKey store_c1 ''c1'') = (json_c1, None)
   \<and> live store_c1 ''edu.mall:captcha:c1'' = Some json_c1
   \<and> snd (GetCaptchaTicket store_t1 ''t1'') = (''c1'', None)
   \<and> live store_t1 ''edu.mall:captcha:ticket:t1'' = Some ''c1''"
proof -
  let ?v1 = "store_empty\<lparr>sent := [GET ''edu.mall:captcha:c1'']\<rparr>"
  let ?v2 = "store_c1\<lparr>sent := sent store_c1 @ [GET ''edu.mall:captcha:ticket:t1'']\<rparr>"
  have e1: "GetCaptchaKey store_empty ''c1'' = (?v1, [], Some redis_Nil)"
    by (simp add: store_empty_def store_simps)
  have e2: "GetCaptchaTicket store_down ''t1''
      = (?v2, [], Some (other_error ''dial tcp: connection refused''))"
    by (simp add: store_down_def store_c1_eval store_simps)
  obtain v3 where e3: "GetCaptchaKey store_c1 ''c1'' = (v3, json_c1, None)"
    by (simp add: store_c1_eval store_simps)
  obtain v4 where e4: "GetCaptchaTicket store_t1 ''t1'' = (v4, ''c1'', None)"
    by (simp add: store_t1_eval store_simps)
  have k: "fmtVerifyCaptchaKey ''c1'' = ''edu.mall:captcha:c1''"
    "fmtVerifyCaptchaTicket ''t1'' = ''edu.mall:captcha:ticket:t1''"
    by (simp_all add: store_simps)
  have "kv ?v1 = kv store_empty"
    using take_error_issues_no_delete [of store_empty "''c1''" ?v1 "[]" redis_Nil] e1 by blast
  moreover have "kv ?v2 = kv store_down"
    using take_error_issues_no_delete
      [of store_down "''t1''" ?v2 "[]" "other_error ''dial tcp: connection refused''"] e2
    by blast
  moreover have "live store_c1 ''edu.mall:captcha:c1'' = Some json_c1"
    using take_error_issues_no_delete [of store_c1 "''c1''" v3 json_c1] e3 k by simp
  moreover have "live store_t1 ''edu.mall:captcha:ticket:t1'' = Some ''c1''"
    using take_error_issues_no_delete [of store_t1 "''t1''" v4 "''c1''"] e4 k by simp
  ultimately show ?thesis using e1 e2 e3 e4 by simp
qed

text \<open>
  C10. Degenerate stored values. When the \<open>GET\<close> is executed and finds a live value,
  an empty value makes the verification fail with the parameter error that carries the
  expired-slider message, and a non-empty value that does not decode makes it fail with
  \<open>InvalidCaptchaErr\<close>; the submitted point plays no part, the commands issued are the
  \<open>GET\<close> and the \<open>DEL\<close> of the challenge, and no ticket is written
  (\<open>degenerate_value_verdict\<close>). But the engine relies on the take to consume the
  challenge, and the take does not look at the reply of its \<open>DEL\<close>: on a store that
  fails that \<open>DEL\<close> the verification returns the same errors and the challenge is still
  live afterwards, so it has not been consumed by the read.
\<close>

theorem degenerate_value_survives_failed_delete:
  "(let (s1, resp, e) =
          CheckSlideCaptcha unmarshal_example ''t9'' store_degenerate_del_lost
            \<lparr>Key = ''e0'', SlideX = 0, SlideY = 0\<rparr>
    in resp = None \<and> e = WithMsg ParamErr msg_slide_expired
       \<and> sent s1 = sent store_degenerate
            @ [GET (fmtVerifyCaptchaKey ''e0''), DEL (fmtVerifyCaptchaKey ''e0'')]
       \<and> live s1 (fmtVerifyCaptchaKey ''e0'') = Some [])
   \<and> (let (s1, resp, e) =
          CheckSlideCaptcha unmarshal_example ''t9'' store_degenerate_del_lost
            \<lparr>Key = ''n0'', SlideX = 0, SlideY = 0\<rparr>
    in resp = None \<and> e = InvalidCaptchaErr
       \<and> sent s1 = sent store_degenerate
            @ [GET (fmtVerifyCaptchaKey ''n0''), DEL (fmtVerifyCaptchaKey ''n0'')]
       \<and> live s1 (fmtVerifyCaptchaKey ''n0'') = Some ''oops'')"
  by (simp add: store_degenerate_del_lost_def store_degenerate_eval CheckSlideCaptcha_def
      unmarshal_example_oops store_simps)

end
